theory Spec2Isabelle
  imports Main "HOL-Library.Sublist"
begin

section \<open>QDMBoxSearch: the mbox loader and the search engine\<close>

text \<open>
  A shallow embedding of \<^verbatim>\<open>src/mbox_search.py\<close> (the command-line tool, class
  \<^verbatim>\<open>MBoxSearcher\<close>) and of \<^verbatim>\<open>src/mbox_search_gui.py\<close> (the desktop tool, classes
  \<^verbatim>\<open>MBoxLoader\<close> and \<^verbatim>\<open>MainWindow\<close>). Definitions come first, theorems afterwards.
\<close>

subsection \<open>Python values and strings\<close>

text \<open>
  A header value returned by \<^verbatim>\<open>message.get\<close> is either a \<^verbatim>\<open>str\<close> or an
  \<^verbatim>\<open>email.header.Header\<close> object; both tools guard every use with
  \<^verbatim>\<open>str(v) if not isinstance(v, str) else v\<close>. \<open>Header r\<close> is such an object whose
  \<^verbatim>\<open>str()\<close> is \<open>r\<close>.
\<close>

datatype pyval = Str string | Header string

fun py_str :: "pyval \<Rightarrow> string" where
  "py_str (Str s) = s"
| "py_str (Header r) = r"

text \<open>Truthiness, as in \<^verbatim>\<open>if date_header:\<close>: a \<^verbatim>\<open>str\<close> is true when it is not
  empty, a \<^verbatim>\<open>Header\<close> object always.\<close>

fun truthy :: "pyval \<Rightarrow> bool" where
  "truthy (Str s) = (s \<noteq> [])"
| "truthy (Header r) = True"

text \<open>
  \<^verbatim>\<open>str.lower()\<close>, on the letters \<^verbatim>\<open>A\<close> to \<^verbatim>\<open>Z\<close> (code points 65 to 90);
  every other character is kept. The theorems about searching below do not depend on
  which characters are mapped.
\<close>

definition lower_char :: "char \<Rightarrow> char" where
  "lower_char c =
     (let n = (of_char c :: nat)
      in if 65 \<le> n \<and> n \<le> 90 then char_of (n + 32) else c)"

definition lower :: "string \<Rightarrow> string" where
  "lower s = map lower_char s"

text \<open>\<^verbatim>\<open>s.startswith(p)\<close> and the containment test \<^verbatim>\<open>q in s\<close>.\<close>

fun startswith :: "'a list \<Rightarrow> 'a list \<Rightarrow> bool" where
  "startswith s [] = True"
| "startswith [] (p # ps) = False"
| "startswith (c # s) (p # ps) = (c = p \<and> startswith s ps)"

fun py_in :: "'a list \<Rightarrow> 'a list \<Rightarrow> bool" where
  "py_in q [] = (q = [])"
| "py_in q (c # s) = (startswith (c # s) q \<or> py_in q s)"

subsection \<open>The record of one message\<close>

text \<open>The dataclass \<^verbatim>\<open>EmailMessage\<close> of both tools. A \<^verbatim>\<open>datetime\<close> is kept as
  its POSIX timestamp; \<^verbatim>\<open>None\<close> is \<open>None\<close>.\<close>

type_synonym datetime = int

record EmailMessage =
  message_id :: pyval
  subject :: pyval
  from_addr :: pyval
  date :: "datetime option"
  body :: pyval

subsection \<open>Searching\<close>

text \<open>
  \<^verbatim>\<open>MBoxSearcher.search\<close> (mbox\_search.py, lines 115 to 141). The loop over
  \<^verbatim>\<open>self.messages\<close> is the recursion of \<open>search_loop\<close>; its last argument is the
  list \<^verbatim>\<open>results\<close>, to which \<^verbatim>\<open>results.append(message)\<close> adds at the end.
\<close>

fun search_loop ::
  "string \<Rightarrow> bool \<Rightarrow> bool \<Rightarrow> EmailMessage list \<Rightarrow> EmailMessage list \<Rightarrow> EmailMessage list"
where
  "search_loop query search_subject search_body [] results = results"
| "search_loop query search_subject search_body (message # rest) results =
     (let match0 = False;
          subj = py_str (subject message);
          bod = py_str (body message);
          match1 = (if search_subject \<and> py_in query (lower subj) then True else match0);
          match2 = (if search_body \<and> py_in query (lower bod) then True else match1)
      in search_loop query search_subject search_body rest
           (if match2 then results @ [message] else results))"

definition search :: "string \<Rightarrow> bool \<Rightarrow> bool \<Rightarrow> EmailMessage list \<Rightarrow> EmailMessage list" where
  "search query search_subject search_body messages =
     search_loop (lower query) search_subject search_body messages []"

text \<open>
  \<^verbatim>\<open>MainWindow.search\<close> (mbox\_search\_gui.py, lines 346 to 365): the same loop, the
  two flags being \<^verbatim>\<open>search_type in ["Subject", "Both"]\<close> and
  \<^verbatim>\<open>search_type in ["Body", "Both"]\<close>, where \<^verbatim>\<open>search_type\<close> is the text of the
  combo box. The result is the list handed to \<^verbatim>\<open>display_results\<close>.
\<close>

fun gui_search_loop ::
  "string \<Rightarrow> string \<Rightarrow> EmailMessage list \<Rightarrow> EmailMessage list \<Rightarrow> EmailMessage list"
where
  "gui_search_loop query search_type [] results = results"
| "gui_search_loop query search_type (message # rest) results =
     (let match0 = False;
          subj = py_str (subject message);
          bod = py_str (body message);
          match1 = (if search_type \<in> set [''Subject'', ''Both''] \<and> py_in query (lower subj)
                    then True else match0);
          match2 = (if search_type \<in> set [''Body'', ''Both''] \<and> py_in query (lower bod)
                    then True else match1)
      in gui_search_loop query search_type rest
           (if match2 then results @ [message] else results))"

definition gui_search :: "string \<Rightarrow> string \<Rightarrow> EmailMessage list \<Rightarrow> EmailMessage list" where
  "gui_search text search_type messages = gui_search_loop (lower text) search_type messages []"

text \<open>The test each tool applies to one record, written without the loop.\<close>

definition matches :: "string \<Rightarrow> bool \<Rightarrow> bool \<Rightarrow> EmailMessage \<Rightarrow> bool" where
  "matches q search_subject search_body m =
     (search_subject \<and> py_in q (lower (py_str (subject m)))
      \<or> search_body \<and> py_in q (lower (py_str (body m))))"

subsection \<open>Parsed messages\<close>

text \<open>
  What the two loaders read of an \<^verbatim>\<open>email.message.Message\<close>. A message is either
  a single part or a container of parts (\<^verbatim>\<open>is_multipart()\<close>, the payload being a
  list). The fields of \<open>Single hs ct d raw\<close> are the headers in file order, the value
  of \<^verbatim>\<open>get_content_type()\<close>, the outcome of
  \<^verbatim>\<open>get_payload(decode=True).decode()\<close> (\<open>None\<close> when that expression raises) and
  the undecoded \<^verbatim>\<open>get_payload()\<close>.
\<close>

datatype message =
    Single "(string \<times> pyval) list" string "string option" pyval
  | Multipart "(string \<times> pyval) list" string "message list"

fun headers :: "message \<Rightarrow> (string \<times> pyval) list" where
  "headers (Single hs ct d raw) = hs"
| "headers (Multipart hs ct ps) = hs"

fun get_content_type :: "message \<Rightarrow> string" where
  "get_content_type (Single hs ct d raw) = ct"
| "get_content_type (Multipart hs ct ps) = ct"

fun is_multipart :: "message \<Rightarrow> bool" where
  "is_multipart (Single hs ct d raw) = False"
| "is_multipart (Multipart hs ct ps) = True"

text \<open>
  \<^verbatim>\<open>part.get_payload(decode=True).decode()\<close>. On a container
  \<^verbatim>\<open>get_payload(decode=True)\<close> is \<^verbatim>\<open>None\<close>, so the call of \<^verbatim>\<open>decode\<close> raises.
\<close>

fun decode_payload :: "message \<Rightarrow> string option" where
  "decode_payload (Single hs ct d raw) = d"
| "decode_payload (Multipart hs ct ps) = None"

text \<open>\<^verbatim>\<open>message.walk()\<close>: the message itself, then its parts, depth first.\<close>

fun walk :: "message \<Rightarrow> message list" where
  "walk (Single hs ct d raw) = [Single hs ct d raw]"
| "walk (Multipart hs ct ps) = Multipart hs ct ps # concat (map walk ps)"

text \<open>\<^verbatim>\<open>message.get(name, failobj)\<close>: the first header of that name, compared without
  regard to case, or \<open>failobj\<close>.\<close>

fun get_header :: "(string \<times> pyval) list \<Rightarrow> string \<Rightarrow> pyval \<Rightarrow> pyval" where
  "get_header [] name failobj = failobj"
| "get_header ((k, v) # hs) name failobj =
     (if lower k = lower name then v else get_header hs name failobj)"

definition msg_get :: "message \<Rightarrow> string \<Rightarrow> pyval \<Rightarrow> pyval" where
  "msg_get message name failobj = get_header (headers message) name failobj"

subsection \<open>The mbox file\<close>

text \<open>
  \<^verbatim>\<open>mailbox.mbox\<close> belongs to the Python standard library, not to the repository. Its
  table of contents (\<^verbatim>\<open>_generate_toc\<close> in \<^verbatim>\<open>Lib/mailbox.py\<close>) reads the file line by
  line: every line that starts with \<^verbatim>\<open>From \<close> opens a message, which ends before the next
  such line or at the end of the file, one blank line before that end not counted; what
  precedes the first such line belongs to no message. A file is a list of bytes, a line
  ends with its line feed.
\<close>

fun readlines_acc :: "string \<Rightarrow> string \<Rightarrow> string list" where
  "readlines_acc cur [] = (if cur = [] then [] else [cur])"
| "readlines_acc cur (c # cs) =
     (if c = CHR 0x0A then (cur @ [c]) # readlines_acc [] cs else readlines_acc (cur @ [c]) cs)"

definition readlines :: "string \<Rightarrow> string list" where
  "readlines f = readlines_acc [] f"

definition strip_blank :: "string list \<Rightarrow> string list" where
  "strip_blank ls = (if ls \<noteq> [] \<and> last ls = [CHR 0x0A] then butlast ls else ls)"

fun close_message :: "string list option \<Rightarrow> string list \<Rightarrow> string list" where
  "close_message None out = out"
| "close_message (Some ls) out = out @ [concat (strip_blank ls)]"

text \<open>\<open>toc_loop lines cur out\<close>: \<open>cur\<close> holds the lines of the message that is open
  (after its \<^verbatim>\<open>From \<close> line), \<open>out\<close> the bytes of the messages already closed.\<close>

fun toc_loop :: "string list \<Rightarrow> string list option \<Rightarrow> string list \<Rightarrow> string list" where
  "toc_loop [] cur out = close_message cur out"
| "toc_loop (line # rest) cur out =
     (if startswith line ''From '' then toc_loop rest (Some []) (close_message cur out)
      else toc_loop rest (map_option (\<lambda>ls. ls @ [line]) cur) out)"

definition mbox_messages :: "string \<Rightarrow> string list" where
  "mbox_messages f = toc_loop (readlines f) None []"

subsection \<open>The environment of a load\<close>

text \<open>
  What a load takes from outside the repository: the file system (a path that is not in
  \<open>files\<close> does not exist), the parser of one message
  (\<^verbatim>\<open>email.message_from_bytes\<close>, the message factory of the mailbox) and
  \<^verbatim>\<open>email.utils.parsedate_to_datetime\<close>, which is \<open>None\<close> where it raises.
\<close>

record env =
  files :: "string \<rightharpoonup> string"
  message_from_bytes :: "string \<Rightarrow> message"
  parsedate_to_datetime :: "pyval \<Rightarrow> datetime option"

text \<open>
  The messages that \<^verbatim>\<open>for message in mbox\<close> goes through, in file order. The
  library decodes the \<^verbatim>\<open>From \<close> line of a message as ASCII when it hands the message
  out and raises on any other byte; the model covers the files whose \<^verbatim>\<open>From \<close> lines
  are ASCII, as those of the example files are.
\<close>

definition mbox :: "env \<Rightarrow> string \<Rightarrow> message list" where
  "mbox e f = map (message_from_bytes e) (mbox_messages f)"

subsection \<open>Building one record\<close>

text \<open>
  The date of a record, the same lines in both loaders (mbox\_search.py 67 to 73,
  mbox\_search\_gui.py 79 to 85): \<^verbatim>\<open>date_obj\<close> stays \<^verbatim>\<open>None\<close> unless the header is
  true and parses.
\<close>

definition parse_date :: "env \<Rightarrow> message \<Rightarrow> datetime option" where
  "parse_date e message =
     (let date_header = msg_get message ''Date'' (Str [])
      in if truthy date_header then parsedate_to_datetime e date_header else None)"

text \<open>
  \<^verbatim>\<open>MBoxSearcher._get_message_body\<close> (mbox\_search.py, lines 90 to 113).
  \<open>body_loop\<close> is the loop over \<^verbatim>\<open>message.walk()\<close>; a part whose decoding raises
  takes the \<^verbatim>\<open>continue\<close>. A single-part message whose decoding raises keeps the raw
  payload.
\<close>

fun body_loop :: "message list \<Rightarrow> string \<Rightarrow> string" where
  "body_loop [] bdy = bdy"
| "body_loop (part # rest) bdy =
     (if get_content_type part = ''text/plain'' then
        (case decode_payload part of
           Some t \<Rightarrow> body_loop rest (bdy @ t)
         | None \<Rightarrow> body_loop rest bdy)
      else body_loop rest bdy)"

fun get_message_body :: "message \<Rightarrow> pyval" where
  "get_message_body (Multipart hs ct ps) = Str (body_loop (walk (Multipart hs ct ps)) [])"
| "get_message_body (Single hs ct d raw) = (case d of Some t \<Rightarrow> Str t | None \<Rightarrow> raw)"

definition cli_record :: "env \<Rightarrow> message \<Rightarrow> EmailMessage" where
  "cli_record e message =
     \<lparr>message_id = msg_get message ''Message-ID'' (Str []),
      subject = msg_get message ''Subject'' (Str []),
      from_addr = msg_get message ''From'' (Str []),
      date = parse_date e message,
      body = get_message_body message\<rparr>"

text \<open>
  The body in \<^verbatim>\<open>MBoxLoader.run\<close> (mbox\_search\_gui.py, lines 87 to 118): plain text
  and HTML are collected side by side, and the record takes
  \<^verbatim>\<open>html_body if html_body else body\<close>.
\<close>

fun gui_body_loop :: "message list \<Rightarrow> string \<Rightarrow> string \<Rightarrow> string \<times> string" where
  "gui_body_loop [] bdy html_body = (bdy, html_body)"
| "gui_body_loop (part # rest) bdy html_body =
     (let content_type = get_content_type part
      in if content_type = ''text/plain'' then
           (case decode_payload part of
              Some t \<Rightarrow> gui_body_loop rest (bdy @ t) html_body
            | None \<Rightarrow> gui_body_loop rest bdy html_body)
         else if content_type = ''text/html'' then
           (case decode_payload part of
              Some t \<Rightarrow> gui_body_loop rest bdy (html_body @ t)
            | None \<Rightarrow> gui_body_loop rest bdy html_body)
         else gui_body_loop rest bdy html_body)"

fun gui_bodies :: "message \<Rightarrow> pyval \<times> string" where
  "gui_bodies (Multipart hs ct ps) =
     (let (bdy, html_body) = gui_body_loop (walk (Multipart hs ct ps)) [] []
      in (Str bdy, html_body))"
| "gui_bodies (Single hs ct d raw) =
     (case d of
        Some t \<Rightarrow> if ct = ''text/html'' then (Str [], t) else (Str t, [])
      | None \<Rightarrow> (raw, []))"

definition gui_record :: "env \<Rightarrow> message \<Rightarrow> EmailMessage" where
  "gui_record e message =
     (let (bdy, html_body) = gui_bodies message
      in \<lparr>message_id = msg_get message ''Message-ID'' (Str []),
          subject = msg_get message ''Subject'' (Str []),
          from_addr = msg_get message ''From'' (Str []),
          date = parse_date e message,
          body = (if html_body \<noteq> [] then Str html_body else bdy)\<rparr>)"

subsection \<open>The command-line loader\<close>

text \<open>
  \<^verbatim>\<open>MBoxSearcher.load_mbox\<close> (mbox\_search.py, lines 48 to 88). The state is
  \<^verbatim>\<open>self.messages\<close> and what was printed on the console; \<^verbatim>\<open>sys.exit(1)\<close> is the
  result \<open>Inl (SystemExit 1)\<close>. The handler of the \<^verbatim>\<open>try\<close> block (lines 86 to
  88), which prints the error and exits as well, has no branch here: the model covers the
  loads in which the mailbox opens and hands out every message.
\<close>

datatype console = File_does_not_exist string | Successfully_loaded nat


record cli_state =
  messages :: "EmailMessage list"
  printed :: "console list"



subsection \<open>The desktop loader\<close>

text \<open>
  \<^verbatim>\<open>bytes.count(sub)\<close> counts occurrences that do not overlap, from the left:
  after a match the scan resumes behind it (\<open>k\<close> is the number of positions still to
  skip). \<open>sub\<close> is not empty.
\<close>

fun count_skip :: "'a list \<Rightarrow> nat \<Rightarrow> 'a list \<Rightarrow> nat" where
  "count_skip sub k [] = 0"
| "count_skip sub k (c # s) =
     (if 0 < k then count_skip sub (k - 1) s
      else if startswith (c # s) sub then 1 + count_skip sub (length sub - 1) s
      else count_skip sub 0 s)"

definition py_count :: "'a list \<Rightarrow> 'a list \<Rightarrow> nat" where
  "py_count s sub = count_skip sub 0 s"

text \<open>
  The signals of \<^verbatim>\<open>MBoxLoader\<close>, in the order of their emission. A status line is
  kept by its kind and its numbers, not as formatted text.
\<close>

datatype exn = FileNotFoundError | ZeroDivisionError

datatype status_text = Scanning | Found nat | Loading nat nat

datatype signal =
    Progress int
  | Status status_text
  | Finished "EmailMessage list"
  | Error exn

definition chunk_size :: nat where
  "chunk_size = 1024 * 1024"

text \<open>
  The first pass of \<^verbatim>\<open>MBoxLoader.run\<close> (mbox\_search\_gui.py, lines 53 to 68):
  \<^verbatim>\<open>f.read(chunk_size)\<close> takes the next chunk, an empty chunk ends the loop. The
  source computes \<^verbatim>\<open>int((bytes_processed / file_size) * 50)\<close> in floating point; the
  model divides exactly. Both agree where the quotient is a whole number, as it is in
  every evaluation below.
\<close>

function scan_loop :: "nat \<Rightarrow> string \<Rightarrow> nat \<Rightarrow> nat \<Rightarrow> signal list \<Rightarrow> nat \<times> signal list" where
  "scan_loop file_size f message_count bytes_processed out =
     (let chunk = take chunk_size f
      in if chunk = [] then (message_count, out)
         else
           (let bytes_processed' = bytes_processed + length chunk;
                message_count' = message_count + py_count chunk ''\<newline>From '';
                progress = (int bytes_processed' * 50) div int file_size
            in scan_loop file_size (drop chunk_size f) message_count' bytes_processed'
                 (out @ [Progress progress])))"
  by pat_completeness auto
termination
  by (relation "measure (\<lambda>(file_size, f, message_count, bytes_processed, out). length f)")
     (auto simp: chunk_size_def)

text \<open>
  The second pass (lines 73 to 126). \<^verbatim>\<open>current_message / message_count\<close> raises
  \<^verbatim>\<open>ZeroDivisionError\<close> when the first pass counted nothing; the handler of
  \<^verbatim>\<open>run\<close> turns it into the error signal and nothing is emitted after it.
\<close>

fun gui_load_loop ::
  "env \<Rightarrow> nat \<Rightarrow> message list \<Rightarrow> EmailMessage list \<Rightarrow> nat \<Rightarrow> signal list \<Rightarrow> signal list"
where
  "gui_load_loop e message_count [] msgs current_message out = out @ [Finished msgs]"
| "gui_load_loop e message_count (message # rest) msgs current_message out =
     (let email = gui_record e message;
          msgs' = msgs @ [email];
          current_message' = current_message + 1
      in if message_count = 0 then out @ [Error ZeroDivisionError]
         else
           (let progress = 50 + (int current_message' * 50) div int message_count
            in gui_load_loop e message_count rest msgs' current_message'
                 (out @ [Progress progress, Status (Loading current_message' message_count)])))"

text \<open>
  \<^verbatim>\<open>MBoxLoader.run\<close> (lines 49 to 128). On a path that does not exist
  \<^verbatim>\<open>os.path.getsize\<close> raises \<^verbatim>\<open>FileNotFoundError\<close>, which the handler emits.
  Of what the handler can catch the model has this exception and the division by zero of
  the second pass; a failure of the file system or of the mailbox on an existing path is
  not modelled.
\<close>

definition run :: "env \<Rightarrow> string \<Rightarrow> signal list" where
  "run e mbox_path =
     (let out = [Status Scanning]
      in case files e mbox_path of
           None \<Rightarrow> out @ [Error FileNotFoundError]
         | Some f \<Rightarrow>
             (let (message_count, out1) = scan_loop (length f) f 0 0 out;
                  out2 = out1 @ [Status (Found message_count)]
              in gui_load_loop e message_count (mbox e f) [] 0 out2))"

text \<open>The count of the first pass, and the progress values among the signals.\<close>

definition prescan :: "string \<Rightarrow> nat" where
  "prescan f = fst (scan_loop (length f) f 0 0 [Status Scanning])"

fun progress_values :: "signal list \<Rightarrow> int list" where
  "progress_values [] = []"
| "progress_values (Progress p # out) = p # progress_values out"
| "progress_values (s # out) = progress_values out"

subsection \<open>Notions of the specification\<close>

text \<open>
  In the words of the specification: the concatenation of the decoded text of every part
  whose content type is \<open>ct\<close>, in part order, a part that fails to decode contributing
  nothing.
\<close>

definition decoded_parts :: "string \<Rightarrow> message \<Rightarrow> string" where
  "decoded_parts ct message =
     concat (map (\<lambda>part. case decode_payload part of Some t \<Rightarrow> t | None \<Rightarrow> [])
               (filter (\<lambda>part. get_content_type part = ct) (walk message)))"

text \<open>The number of places of a file at which a line feed is followed by \<^verbatim>\<open>From \<close>.\<close>

fun boundaries :: "string \<Rightarrow> nat" where
  "boundaries [] = 0"
| "boundaries (c # s) = (if startswith (c # s) ''\<newline>From '' then 1 else 0) + boundaries s"

subsection \<open>Example data\<close>

text \<open>
  An mbox file of two messages, the second with a date that does not parse, and a file
  of one message, which has no Date header. \<open>example_parser\<close> stands for the message
  parser on these three messages.
\<close>

definition two_messages :: string where
  "two_messages =
     ''From a@x Mon Jan  1 00:00:00 2024\<newline>Subject: one\<newline>Date: Mon, 1 Jan 2024 00:00:00 +0000\<newline>\<newline>hi\<newline>\<newline>From b@x Tue Jan  2 00:00:00 2024\<newline>Subject: two\<newline>Date: yesterday\<newline>\<newline>yo\<newline>''"

definition one_message :: string where
  "one_message = ''From a@x Mon Jan  1 00:00:00 2024\<newline>Subject: one\<newline>\<newline>hi\<newline>''"

definition example_parser :: "string \<Rightarrow> message" where
  "example_parser b =
     (if b = ''Subject: one\<newline>Date: Mon, 1 Jan 2024 00:00:00 +0000\<newline>\<newline>hi\<newline>'' then
        Single [(''Subject'', Str ''one''), (''Date'', Str ''Mon, 1 Jan 2024 00:00:00 +0000'')]
          ''text/plain'' (Some ''hi\<newline>'') (Str ''hi\<newline>'')
      else if b = ''Subject: two\<newline>Date: yesterday\<newline>\<newline>yo\<newline>'' then
        Single [(''Subject'', Str ''two''), (''Date'', Str ''yesterday'')]
          ''text/plain'' (Some ''yo\<newline>'') (Str ''yo\<newline>'')
      else if b = ''Subject: one\<newline>\<newline>hi\<newline>'' then
        Single [(''Subject'', Str ''one'')] ''text/plain'' (Some ''hi\<newline>'') (Str ''hi\<newline>'')
      else Single [] ''text/plain'' (Some b) (Str b))"

definition example_env :: env where
  "example_env =
     \<lparr>files = [''two.mbox'' \<mapsto> two_messages, ''one.mbox'' \<mapsto> one_message],
      message_from_bytes = example_parser,
      parsedate_to_datetime =
        (\<lambda>v. if v = Str ''Mon, 1 Jan 2024 00:00:00 +0000'' then Some 1704067200 else None)\<rparr>"

text \<open>A message with a plain-text and an HTML alternative, and one with a plain-text part,
  an attachment and a plain-text part that does not decode.\<close>

definition plain_and_html :: message where
  "plain_and_html =
     Multipart [(''Subject'', Str ''greeting'')] ''multipart/alternative''
       [Single [] ''text/plain'' (Some ''Hello'') (Str ''Hello''),
        Single [] ''text/html'' (Some ''<b>Hello</b>'') (Str ''<b>Hello</b>'')]"

definition plain_and_attachment :: message where
  "plain_and_attachment =
     Multipart [(''Subject'', Str ''report'')] ''multipart/mixed''
       [Single [] ''text/plain'' (Some ''Hello'') (Str ''Hello''),
        Single [] ''application/pdf'' None (Str ''JVBERi0xLjQK''),
        Single [] ''text/plain'' None (Str ''=FF=FE'')]"

section \<open>Theorems\<close>

subsection \<open>Strings\<close>

lemma startswith_iff: "startswith s p \<longleftrightarrow> (\<exists>t. s = p @ t)"
  by (induction s p rule: startswith.induct) auto

lemma py_in_iff: "py_in q s \<longleftrightarrow> (\<exists>p t. s = p @ q @ t)"
proof (induction s)
  case Nil
  then show ?case by auto
next
  case (Cons c s)
  show ?case
  proof
    assume "py_in q (c # s)"
    then consider "startswith (c # s) q" | "py_in q s" by auto
    then show "\<exists>p t. c # s = p @ q @ t"
    proof cases
      case 1
      then obtain t where "c # s = q @ t" by (auto simp: startswith_iff)
      then have "c # s = [] @ q @ t" by simp
      then show ?thesis by blast
    next
      case 2
      then obtain p t where "s = p @ q @ t" using Cons.IH by blast
      then have "c # s = (c # p) @ q @ t" by simp
      then show ?thesis by blast
    qed
  next
    assume "\<exists>p t. c # s = p @ q @ t"
    then obtain p t where e: "c # s = p @ q @ t" by blast
    show "py_in q (c # s)"
    proof (cases p)
      case Nil
      with e have "startswith (c # s) q" by (simp add: startswith_iff)
      then show ?thesis by simp
    next
      case (Cons a p')
      with e have "s = p' @ q @ t" by simp
      then show ?thesis using Cons.IH by auto
    qed
  qed
qed

lemma py_in_empty: "py_in [] s"
  by (cases s) simp_all

subsection \<open>The search loops are filters\<close>

lemma search_loop_filter:
  "search_loop q ss sb ms acc = acc @ filter (matches q ss sb) ms"
  by (induction ms arbitrary: acc) (auto simp: matches_def Let_def)

lemma gui_search_loop_filter:
  "gui_search_loop q st ms acc =
     acc @ filter (matches q (st \<in> set [''Subject'', ''Both'']) (st \<in> set [''Body'', ''Both''])) ms"
  by (induction ms arbitrary: acc) (auto simp: matches_def Let_def)

lemma search_filter: "search query ss sb ms = filter (matches (lower query) ss sb) ms"
  by (simp add: search_def search_loop_filter)

lemma gui_search_search:
  "gui_search text st ms =
     search text (st \<in> set [''Subject'', ''Both'']) (st \<in> set [''Body'', ''Both'']) ms"
  by (simp add: gui_search_def search_def search_loop_filter gui_search_loop_filter)

lemma subseq_filter_mono:
  "(\<And>x. P x \<Longrightarrow> Q x) \<Longrightarrow> subseq (filter P xs) (filter Q xs)"
  by (induction xs) auto

text \<open>
  Claim C1. The search returns exactly the records for which at least one enabled field
  (the subject when \<open>search_subject\<close>, the body when \<open>search_body\<close>), lower-cased,
  contains the lower-cased query as a contiguous substring; every other record is left
  out. The desktop tool's search is the same function, its flags read off the combo box.
\<close>

theorem search_exact:
  "search query search_subject search_body records =
     filter (\<lambda>m. search_subject \<and> (\<exists>p t. lower (py_str (subject m)) = p @ lower query @ t)
                \<or> search_body \<and> (\<exists>p t. lower (py_str (body m)) = p @ lower query @ t))
       records
   \<and> gui_search query search_type records =
     search query (search_type \<in> set [''Subject'', ''Both''])
       (search_type \<in> set [''Body'', ''Both'']) records"
proof -
  have "matches (lower query) search_subject search_body =
        (\<lambda>m. search_subject \<and> (\<exists>p t. lower (py_str (subject m)) = p @ lower query @ t)
            \<or> search_body \<and> (\<exists>p t. lower (py_str (body m)) = p @ lower query @ t))"
    by (simp add: fun_eq_iff matches_def py_in_iff)
  then show ?thesis
    using search_filter [of query search_subject search_body records]
      gui_search_search [of query search_type records]
    by simp
qed

text \<open>
  Claim C4. The search result is a subsequence of the input, in the input's order:
  nothing is reordered, ranked or weighted.
\<close>

theorem search_preserves_order:
  "subseq (search query search_subject search_body records) records
   \<and> subseq (gui_search query search_type records) records"
  by (simp add: gui_search_search search_filter)

text \<open>
  Claim C8. With the empty string as the query and at least one field flag enabled, the
  search returns every record of the sequence.
\<close>

theorem search_empty_query:
  "search_subject \<or> search_body \<Longrightarrow> search [] search_subject search_body records = records"
  by (auto simp: search_filter matches_def lower_def py_in_empty)

theorem search_empty_query_witness:
  "(True \<or> False)
   \<and> search [] True False
        [\<lparr>message_id = Str ''<1@x>'', subject = Str ''Quarterly Report'', from_addr = Str ''a@x'',
          date = None, body = Str ''Hello''\<rparr>,
         \<lparr>message_id = Str ''<2@x>'', subject = Header ''Re: lunch'', from_addr = Str ''b@x'',
          date = Some 1700000000, body = Str ''''\<rparr>]
     = [\<lparr>message_id = Str ''<1@x>'', subject = Str ''Quarterly Report'', from_addr = Str ''a@x'',
          date = None, body = Str ''Hello''\<rparr>,
         \<lparr>message_id = Str ''<2@x>'', subject = Header ''Re: lunch'', from_addr = Str ''b@x'',
          date = Some 1700000000, body = Str ''''\<rparr>]"
  using search_empty_query [of True False
        "[\<lparr>message_id = Str ''<1@x>'', subject = Str ''Quarterly Report'', from_addr = Str ''a@x'',
          date = None, body = Str ''Hello''\<rparr>,
         \<lparr>message_id = Str ''<2@x>'', subject = Header ''Re: lunch'', from_addr = Str ''b@x'',
          date = Some 1700000000, body = Str ''''\<rparr>]"]
  by simp

text \<open>
  Claim C10. The search is monotone in the field flags: the result with only the subject
  enabled and the result with only the body enabled are both subsequences of the result
  with both enabled, so every record of a single-flag result is in the both-flags result.
\<close>

theorem search_flags_monotone:
  "subseq (search query True False records) (search query True True records)
   \<and> subseq (search query False True records) (search query True True records)
   \<and> set (search query True False records) \<subseteq> set (search query True True records)
   \<and> set (search query False True records) \<subseteq> set (search query True True records)"
proof -
  have a: "subseq (search query True False records) (search query True True records)"
    unfolding search_filter by (rule subseq_filter_mono) (simp add: matches_def)
  have b: "subseq (search query False True records) (search query True True records)"
    unfolding search_filter by (rule subseq_filter_mono) (simp add: matches_def)
  have c: "set (search query True False records) \<subseteq> set (search query True True records)"
    by (auto simp: search_filter matches_def)
  have d: "set (search query False True records) \<subseteq> set (search query True True records)"
    by (auto simp: search_filter matches_def)
  from a b c d show ?thesis by simp
qed

subsection \<open>The first pass of the desktop loader\<close>

declare scan_loop.simps [simp del]

lemma scan_loop_single_chunk:
  assumes "f \<noteq> []" and "length f \<le> chunk_size"
  shows "scan_loop file_size f message_count bytes_processed out =
           (message_count + py_count f ''\<newline>From '',
            out @ [Progress ((int (bytes_processed + length f) * 50) div int file_size)])"
proof -
  have d: "drop chunk_size f = []" using assms by simp
  have t: "take chunk_size f = f" using assms by simp
  show ?thesis
    using assms
    by (subst scan_loop.simps, simp add: d t Let_def)
       (subst scan_loop.simps, simp)
qed

lemma scan_loop_empty: "scan_loop file_size [] message_count bytes_processed out = (message_count, out)"
  by (subst scan_loop.simps) simp

text \<open>
  The first pass against the table of contents. The mailbox has one message for each line
  that starts with \<^verbatim>\<open>From \<close>: one for the first line of the file, if it is such a
  line, and one for each place at which a line feed is followed by \<^verbatim>\<open>From \<close>. The
  first pass counts such places only, chunk by chunk, so it never counts the first line
  and misses a place that a chunk border cuts.
\<close>

lemma length_close_message:
  "length (close_message cur out) = length out + (case cur of None \<Rightarrow> 0 | Some ls \<Rightarrow> 1)"
  by (cases cur) simp_all

lemma length_toc_loop:
  "length (toc_loop ls cur out) =
     length out + (case cur of None \<Rightarrow> 0 | Some x \<Rightarrow> 1)
     + length (filter (\<lambda>l. startswith l ''From '') ls)"
  by (induction ls arbitrary: cur out) (auto simp: length_close_message split: option.splits)

lemma startswith_before_newline:
  "CHR 0x0A \<notin> set p \<Longrightarrow> startswith (cur @ CHR 0x0A # t) p \<longleftrightarrow> startswith cur p"
proof (induction cur arbitrary: p)
  case Nil
  then show ?case by (cases p) auto
next
  case (Cons a cur)
  then show ?case by (cases p) auto
qed

lemma startswith_append_newline:
  "CHR 0x0A \<notin> set p \<Longrightarrow> startswith (cur @ [CHR 0x0A]) p \<longleftrightarrow> startswith cur p"
  using startswith_before_newline [of p cur "[]"] by simp

lemma from_lines_readlines_acc:
  "length (filter (\<lambda>l. startswith l ''From '') (readlines_acc cur s)) =
     (if startswith (cur @ s) ''From '' then 1 else 0) + boundaries s"
proof (induction s arbitrary: cur)
  case Nil
  then show ?case by (cases cur) auto
next
  case (Cons c s)
  show ?case
  proof (cases "c = CHR 0x0A")
    case True
    have a: "startswith (cur @ [CHR 0x0A]) ''From '' = startswith cur ''From ''"
      by (rule startswith_append_newline) simp
    have b: "startswith (cur @ CHR 0x0A # s) ''From '' = startswith cur ''From ''"
      by (rule startswith_before_newline) simp
    show ?thesis using True Cons.IH [of "[]"] by (simp add: a b)
  next
    case False
    then show ?thesis using Cons.IH [of "cur @ [c]"] by simp
  qed
qed

lemma length_mbox_messages:
  "length (mbox_messages f) = (if startswith f ''From '' then 1 else 0) + boundaries f"
  using from_lines_readlines_acc [of "[]" f]
  by (simp add: mbox_messages_def readlines_def length_toc_loop)

lemma boundaries_skip:
  "CHR 0x0A \<notin> set (take k s) \<Longrightarrow> boundaries s = boundaries (drop k s)"
proof (induction s arbitrary: k)
  case Nil
  then show ?case by simp
next
  case (Cons c s)
  then show ?case by (cases k) auto
qed

lemma count_skip_boundaries:
  "CHR 0x0A \<notin> set (take k s) \<Longrightarrow> count_skip ''\<newline>From '' k s = boundaries (drop k s)"
proof (induction s arbitrary: k)
  case Nil
  then show ?case by simp
next
  case (Cons c s)
  show ?case
  proof (cases k)
    case (Suc k')
    with Cons show ?thesis by simp
  next
    case 0
    show ?thesis
    proof (cases "startswith (c # s) ''\<newline>From ''")
      case True
      then obtain t where t: "c # s = ''\<newline>From '' @ t" by (auto simp: startswith_iff)
      then have s: "s = ''From '' @ t" by simp
      have "CHR 0x0A \<notin> set (take (Suc (Suc (Suc (Suc (Suc 0))))) s)" by (simp add: s)
      from Cons.IH [OF this] boundaries_skip [OF this] True 0 show ?thesis
        by simp
    next
      case False
      with 0 Cons.IH [of 0] show ?thesis by auto
    qed
  qed
qed

lemma py_count_boundaries: "py_count s ''\<newline>From '' = boundaries s"
  using count_skip_boundaries [of 0 s] by (simp add: py_count_def)

lemma startswith_take: "startswith (take n s) p \<Longrightarrow> startswith s p"
  by (metis append.assoc append_take_drop_id startswith_iff)

lemma boundaries_take_drop: "boundaries (take n s) + boundaries (drop n s) \<le> boundaries s"
proof (induction s arbitrary: n)
  case Nil
  then show ?case by simp
next
  case (Cons c s)
  show ?case
  proof (cases n)
    case 0
    then show ?thesis by simp
  next
    case (Suc m)
    have "startswith (take m s) ''From '' \<Longrightarrow> startswith s ''From ''"
      by (rule startswith_take)
    with Cons.IH [of m] Suc show ?thesis by auto
  qed
qed

lemma scan_loop_count_le:
  "fst (scan_loop file_size f message_count bytes_processed out) \<le> message_count + boundaries f"
proof (induction file_size f message_count bytes_processed out rule: scan_loop.induct)
  case (1 file_size f message_count bytes_processed out)
  show ?case
  proof (cases "take chunk_size f = []")
    case True
    then show ?thesis by (subst scan_loop.simps) simp
  next
    case False
    from "1.IH" [OF refl False refl refl refl]
    have "fst (scan_loop file_size (drop chunk_size f)
                (message_count + py_count (take chunk_size f) ''\<newline>From '')
                (bytes_processed + length (take chunk_size f))
                (out @ [Progress ((int (bytes_processed + length (take chunk_size f)) * 50)
                                   div int file_size)]))
          \<le> message_count + py_count (take chunk_size f) ''\<newline>From ''
              + boundaries (drop chunk_size f)" .
    moreover have "boundaries (take chunk_size f) + boundaries (drop chunk_size f) \<le> boundaries f"
      by (rule boundaries_take_drop)
    ultimately show ?thesis
      using False by (subst scan_loop.simps) (simp add: Let_def py_count_boundaries)
  qed
qed

lemma prescan_le_boundaries: "prescan f \<le> boundaries f"
  using scan_loop_count_le [of "length f" f 0 0 "[Status Scanning]"] by (simp add: prescan_def)

lemma prescan_single_chunk: "length f \<le> chunk_size \<Longrightarrow> prescan f = boundaries f"
  by (cases "f = []")
     (simp_all add: prescan_def scan_loop_empty scan_loop_single_chunk py_count_boundaries)

lemma prescan_misses_first:
  "startswith f ''From '' \<Longrightarrow> prescan f < length (mbox e f)"
  using prescan_le_boundaries [of f] by (simp add: mbox_def length_mbox_messages)

lemma prescan_off_by_one:
  "startswith f ''From '' \<Longrightarrow> length f \<le> chunk_size \<Longrightarrow> length (mbox e f) = prescan f + 1"
  by (simp add: mbox_def length_mbox_messages prescan_single_chunk)

subsection \<open>The example files\<close>

lemma two_messages_len: "two_messages \<noteq> [] \<and> length two_messages \<le> chunk_size"
  by (simp add: two_messages_def chunk_size_def)

lemma two_messages_count: "py_count two_messages ''\<newline>From '' = 1"
  by (simp add: two_messages_def py_count_def)

lemma two_messages_split:
  "mbox_messages two_messages = [''Subject: one\<newline>Date: Mon, 1 Jan 2024 00:00:00 +0000\<newline>\<newline>hi\<newline>'',
      ''Subject: two\<newline>Date: yesterday\<newline>\<newline>yo\<newline>'']"
  by (simp add: two_messages_def mbox_messages_def readlines_def strip_blank_def)

lemma one_message_len: "one_message \<noteq> [] \<and> length one_message \<le> chunk_size"
  by (simp add: one_message_def chunk_size_def)

lemma one_message_count: "py_count one_message ''\<newline>From '' = 0"
  by (simp add: one_message_def py_count_def)

lemma one_message_split: "mbox_messages one_message = [''Subject: one\<newline>\<newline>hi\<newline>'']"
  by (simp add: one_message_def mbox_messages_def readlines_def strip_blank_def)

text \<open>A file of one message: the first pass counts no message, and the second pass
  stops on the division by that count before the record is delivered.\<close>

lemma gui_single_message_fails:
  "run (e\<lparr>files := [''one.mbox'' \<mapsto> one_message]\<rparr>) ''one.mbox'' =
     [Status Scanning, Progress 50, Status (Found 0), Error ZeroDivisionError]"
  using one_message_len
  by (simp add: run_def scan_loop_single_chunk one_message_count mbox_def one_message_split)

text \<open>
  Claim C2. The number of records the loader returns is to equal the number of
  \<^verbatim>\<open>From \<close> boundaries found by the first pass. On the file of two messages the first
  pass of the desktop loader finds one boundary, while the mailbox holds two messages and
  the loader delivers two records, in file order.
\<close>

theorem gui_prescan_undercounts:
  "prescan two_messages = 1
   \<and> length (mbox e two_messages) = 2
   \<and> (\<exists>out. run (e\<lparr>files := [''two.mbox'' \<mapsto> two_messages]\<rparr>) ''two.mbox'' =
         out @ [Finished (map (gui_record (e\<lparr>files := [''two.mbox'' \<mapsto> two_messages]\<rparr>))
                            (mbox e two_messages))])"
  using two_messages_len
  by (simp add: prescan_def scan_loop_single_chunk two_messages_count mbox_def two_messages_split
        run_def)

text \<open>
  Claim C3. Every progress value of one load is to lie between 0 and 100. On the file of
  two messages the desktop loader emits 50, 100 and 150: the second pass divides the
  number of messages loaded by the count of the first pass, which is one short.
\<close>

theorem gui_progress_exceeds_100:
  "progress_values (run (e\<lparr>files := [''two.mbox'' \<mapsto> two_messages]\<rparr>) ''two.mbox'') =
     [50, 100, 150]"
  using two_messages_len
  by (simp add: run_def scan_loop_single_chunk two_messages_count mbox_def two_messages_split)

subsection \<open>Bodies\<close>

lemma body_loop_concat:
  "body_loop parts acc =
     acc @ concat (map (\<lambda>part. case decode_payload part of Some t \<Rightarrow> t | None \<Rightarrow> [])
                    (filter (\<lambda>part. get_content_type part = ''text/plain'') parts))"
  by (induction parts arbitrary: acc) (auto split: option.splits)

lemma gui_body_loop_concat:
  "gui_body_loop parts acc hacc =
     (acc @ concat (map (\<lambda>part. case decode_payload part of Some t \<Rightarrow> t | None \<Rightarrow> [])
                     (filter (\<lambda>part. get_content_type part = ''text/plain'') parts)),
      hacc @ concat (map (\<lambda>part. case decode_payload part of Some t \<Rightarrow> t | None \<Rightarrow> [])
                     (filter (\<lambda>part. get_content_type part = ''text/html'') parts)))"
  by (induction parts arbitrary: acc hacc) (auto split: option.splits simp: Let_def)

text \<open>
  Claim C7. For a multi-part message the command-line loader builds the body as the
  concatenation of the decoded text of every part of content type \<^verbatim>\<open>text/plain\<close>, in
  part order; other parts are left out, and a part whose decoding fails contributes
  nothing. So it is for the message of one plain-text part, an attachment and a part that
  does not decode.
\<close>

theorem plain_body_is_concat_of_plain_parts:
  "get_message_body (Multipart hs ct ps) =
     Str (decoded_parts ''text/plain'' (Multipart hs ct ps))
   \<and> body (cli_record e (Multipart hs ct ps)) =
     Str (decoded_parts ''text/plain'' (Multipart hs ct ps))
   \<and> get_message_body plain_and_attachment = Str ''Hello''"
  by (simp add: decoded_parts_def body_loop_concat cli_record_def plain_and_attachment_def)

text \<open>
  Claim C5, as the source has it. In the desktop loader the body of a multi-part message
  is the concatenation of its decoded HTML parts whenever that is not empty, and the
  concatenation of its decoded plain-text parts otherwise.
\<close>

theorem html_body_preferred:
  "body (gui_record e (Multipart hs ct ps)) =
     (if decoded_parts ''text/html'' (Multipart hs ct ps) \<noteq> []
      then Str (decoded_parts ''text/html'' (Multipart hs ct ps))
      else Str (decoded_parts ''text/plain'' (Multipart hs ct ps)))"
  by (simp add: gui_record_def decoded_parts_def gui_body_loop_concat)

text \<open>
  Claim C5, as stated, fails: a message with the plain-text part \<^verbatim>\<open>Hello\<close> and an
  HTML part gets the HTML as its body, although a usable plain-text part exists.
\<close>

theorem html_replaces_plain_text:
  "decoded_parts ''text/plain'' plain_and_html = ''Hello''
   \<and> body (gui_record example_env plain_and_html) = Str ''<b>Hello</b>''
   \<and> body (gui_record example_env plain_and_html)
       \<noteq> Str (decoded_parts ''text/plain'' plain_and_html)"
  by (simp add: gui_record_def decoded_parts_def plain_and_html_def)

subsection \<open>Loading\<close>


text \<open>Once the first pass has counted a message, the second pass runs to its end and
  delivers one record for every message it is given, in order.\<close>

lemma gui_load_loop_finishes:
  "0 < message_count \<Longrightarrow>
     \<exists>out'. gui_load_loop e message_count ms acc current out =
               out' @ [Finished (acc @ map (gui_record e) ms)]"
proof (induction ms arbitrary: acc current out)
  case Nil
  then show ?case by simp
next
  case (Cons m ms)
  from Cons.IH [OF Cons.prems, of "acc @ [gui_record e m]" "current + 1"
      "out @ [Progress (50 + (int (current + 1) * 50) div int message_count),
              Status (Loading (current + 1) message_count)]"]
  obtain out' where
    "gui_load_loop e message_count ms (acc @ [gui_record e m]) (current + 1)
       (out @ [Progress (50 + (int (current + 1) * 50) div int message_count),
               Status (Loading (current + 1) message_count)]) =
     out' @ [Finished ((acc @ [gui_record e m]) @ map (gui_record e) ms)]"
    by blast
  with Cons.prems show ?case by (simp add: Let_def)
qed









end
